theory Spec2Isabelle
  imports Complex_Main "HOL-Library.Char_ord" "HOL-Library.List_Lexorder"
begin

section \<open>Common conventions\<close>

text \<open>
  Instants (\<open>time.Time\<close>) and durations (\<open>time.Duration\<close>) are integers counting
  nanoseconds; an instant counts from the Unix epoch. \<open>t.After(u)\<close> is \<open>u < t\<close> and
  \<open>t.Add(d)\<close> is \<open>t + d\<close>. Every operation that reads the clock takes the reading
  as its first argument \<open>now\<close>; the operations of one component run one after the other,
  as the locks of the source force them to.

  \<open>float64\<close> and \<open>float32\<close> values are real numbers: rounding, infinities and NaN
  are left out. \<open>int64\<close> counters are integers; no claim below drives one to its bound.
\<close>

type_synonym time = int
type_synonym duration = int

definition zeroTime :: time where
  \<comment> \<open>the zero value of \<open>time.Time\<close>: 1 January of year 1, 00:00 UTC\<close>
  "zeroTime = - 62135596800 * 1000000000"

definition int64_of_float :: "real \<Rightarrow> int" where
  \<comment> \<open>the Go conversion \<open>int64(x)\<close> of a float: the fraction is dropped (towards zero)\<close>
  "int64_of_float x = (if 0 \<le> x then \<lfloor>x\<rfloor> else \<lceil>x\<rceil>)"


section \<open>Types (package types)\<close>

type_synonym PolicyType = string

definition PolicyTypeRateLimit :: PolicyType where "PolicyTypeRateLimit = ''RATE_LIMIT''"
definition PolicyTypeCircuitBreak :: PolicyType where "PolicyTypeCircuitBreak = ''CIRCUIT_BREAK''"
definition PolicyTypeDegrade :: PolicyType where "PolicyTypeDegrade = ''DEGRADE''"

record RateLimitPolicy =
  LimitRate :: real
  Duration :: duration

record CircuitBreakPolicy =
  BreakDuration :: duration
  RecoveryStep :: real

record Policy =
  PolicyID :: string
  PolicyClusterID :: string
  PolicyType :: PolicyType
  Severity :: real
  RateLimit :: "RateLimitPolicy option"
  CircuitBreak :: "CircuitBreakPolicy option"
  CreateTime :: time
  ExpireTime :: time
  IsActive :: bool

datatype BreakerState = BreakerStateClosed | BreakerStateOpen | BreakerStateHalfOpen

record BreakerConfig =
  FailureThreshold :: int
  RecoveryTimeout :: duration
  RecoveryIncrement :: real


section \<open>Cluster circuit breaker (package breaker)\<close>

record breakerStats =
  TotalRequests :: int
  FailedRequests :: int
  SuccessRequests :: int
  BreakerOpenCount :: int
  LastStateChange :: time

record clusterBreaker =
  ClusterID :: string
  State :: BreakerState
  BreakerPolicy :: "Policy option"
  FailureCount :: int
  SuccessCount :: int
  LastFailTime :: time
  NextRetry :: time
  Config :: BreakerConfig
  Stats :: breakerStats

record clusterCircuitBreaker =
  config :: BreakerConfig
  clusters :: "string \<rightharpoonup> clusterBreaker"

datatype breaker_error = PolicyCannotBeNil

definition NewClusterCircuitBreaker :: "BreakerConfig \<Rightarrow> clusterCircuitBreaker" where
  "NewClusterCircuitBreaker cfg = \<lparr>config = cfg, clusters = Map.empty\<rparr>"

definition newBreakerStats :: "time \<Rightarrow> breakerStats" where
  "newBreakerStats now =
     \<lparr>TotalRequests = 0, FailedRequests = 0, SuccessRequests = 0, BreakerOpenCount = 0,
      LastStateChange = now\<rparr>"

definition recordRequest :: "breakerStats \<Rightarrow> breakerStats" where
  "recordRequest bs = bs\<lparr>TotalRequests := TotalRequests bs + 1\<rparr>"

definition recordSuccess :: "breakerStats \<Rightarrow> breakerStats" where
  "recordSuccess bs = bs\<lparr>SuccessRequests := SuccessRequests bs + 1\<rparr>"

definition recordFailure :: "breakerStats \<Rightarrow> breakerStats" where
  "recordFailure bs = bs\<lparr>FailedRequests := FailedRequests bs + 1\<rparr>"

definition recordBreakerOpen :: "breakerStats \<Rightarrow> breakerStats" where
  "recordBreakerOpen bs = bs\<lparr>BreakerOpenCount := BreakerOpenCount bs + 1\<rparr>"

definition recordStateChange :: "time \<Rightarrow> breakerStats \<Rightarrow> breakerStats" where
  "recordStateChange now bs = bs\<lparr>LastStateChange := now\<rparr>"

definition setState :: "time \<Rightarrow> BreakerState \<Rightarrow> clusterBreaker \<Rightarrow> clusterBreaker" where
  "setState now s cb = cb\<lparr>State := s, Stats := recordStateChange now (Stats cb)\<rparr>"

definition reset :: "clusterBreaker \<Rightarrow> clusterBreaker" where
  "reset cb = cb\<lparr>FailureCount := 0, SuccessCount := 0\<rparr>"

text \<open>
  The three operations on one breaker, as the bodies run under \<open>breaker.mutex\<close>.
  \<open>BreakerState\<close> is an \<open>int\<close> in the source and \<open>Allow\<close> has a \<open>default\<close> branch
  returning false; only the three named constants are ever stored, so the datatype has
  exactly these three values.
\<close>

definition breakerAllow :: "time \<Rightarrow> clusterBreaker \<Rightarrow> bool \<times> clusterBreaker" where
  "breakerAllow now b0 =
     (let b = b0\<lparr>Stats := recordRequest (Stats b0)\<rparr> in
      case State b of
        BreakerStateClosed \<Rightarrow> (True, b)
      | BreakerStateOpen \<Rightarrow>
          (if NextRetry b < now then (True, setState now BreakerStateHalfOpen b)
           else (False, b))
      | BreakerStateHalfOpen \<Rightarrow> (True, b))"

definition recoveryThreshold :: "BreakerConfig \<Rightarrow> int" where
  "recoveryThreshold cfg =
     int64_of_float (real_of_int (FailureThreshold cfg) * RecoveryIncrement cfg)"

definition breakerRecordSuccess :: "time \<Rightarrow> clusterBreaker \<Rightarrow> clusterBreaker" where
  "breakerRecordSuccess now b0 =
     (let b = b0\<lparr>SuccessCount := SuccessCount b0 + 1, Stats := recordSuccess (Stats b0)\<rparr> in
      case State b of
        BreakerStateHalfOpen \<Rightarrow>
          (if recoveryThreshold (Config b) \<le> SuccessCount b
           then reset (setState now BreakerStateClosed b)
           else b)
      | BreakerStateOpen \<Rightarrow> b\<lparr>SuccessCount := SuccessCount b + 1\<rparr>
      | BreakerStateClosed \<Rightarrow> b)"

definition breakerRecordFailure :: "time \<Rightarrow> clusterBreaker \<Rightarrow> clusterBreaker" where
  "breakerRecordFailure now b0 =
     (let b = b0\<lparr>FailureCount := FailureCount b0 + 1, LastFailTime := now,
                  Stats := recordFailure (Stats b0)\<rparr> in
      case State b of
        BreakerStateClosed \<Rightarrow>
          (if FailureThreshold (Config b) \<le> FailureCount b
           then (let b1 = setState now BreakerStateOpen b;
                     b2 = b1\<lparr>NextRetry := now + RecoveryTimeout (Config b1)\<rparr>
                 in b2\<lparr>Stats := recordBreakerOpen (Stats b2)\<rparr>)
           else b)
      | BreakerStateHalfOpen \<Rightarrow>
          (let b1 = setState now BreakerStateOpen b;
               b2 = b1\<lparr>NextRetry := now + RecoveryTimeout (Config b1)\<rparr>
           in b2\<lparr>Stats := recordBreakerOpen (Stats b2)\<rparr>)
      | BreakerStateOpen \<Rightarrow> b)"

text \<open>The methods of \<open>clusterCircuitBreaker\<close>: look the breaker up, then run the body.\<close>

definition Allow :: "time \<Rightarrow> clusterCircuitBreaker \<Rightarrow> string \<Rightarrow> bool \<times> clusterCircuitBreaker" where
  "Allow now ccb clusterID =
     (if clusterID = [] then (True, ccb)
      else case clusters ccb clusterID of
        None \<Rightarrow> (True, ccb)
      | Some breaker \<Rightarrow>
          (let (r, breaker') = breakerAllow now breaker
           in (r, ccb\<lparr>clusters := (clusters ccb)(clusterID \<mapsto> breaker')\<rparr>)))"

definition RecordSuccess ::
  "time \<Rightarrow> clusterCircuitBreaker \<Rightarrow> string \<Rightarrow> breaker_error option \<times> clusterCircuitBreaker" where
  "RecordSuccess now ccb clusterID =
     (if clusterID = [] then (None, ccb)
      else case clusters ccb clusterID of
        None \<Rightarrow> (None, ccb)
      | Some breaker \<Rightarrow>
          (None, ccb\<lparr>clusters := (clusters ccb)(clusterID \<mapsto> breakerRecordSuccess now breaker)\<rparr>))"

definition RecordFailure ::
  "time \<Rightarrow> clusterCircuitBreaker \<Rightarrow> string \<Rightarrow> breaker_error option \<times> clusterCircuitBreaker" where
  "RecordFailure now ccb clusterID =
     (if clusterID = [] then (None, ccb)
      else case clusters ccb clusterID of
        None \<Rightarrow> (None, ccb)
      | Some breaker \<Rightarrow>
          (None, ccb\<lparr>clusters := (clusters ccb)(clusterID \<mapsto> breakerRecordFailure now breaker)\<rparr>))"

definition GetState :: "clusterCircuitBreaker \<Rightarrow> string \<Rightarrow> BreakerState" where
  "GetState ccb clusterID =
     (if clusterID = [] then BreakerStateClosed
      else case clusters ccb clusterID of
        None \<Rightarrow> BreakerStateClosed
      | Some breaker \<Rightarrow> State breaker)"

definition newClusterBreaker :: "time \<Rightarrow> BreakerConfig \<Rightarrow> string \<Rightarrow> clusterBreaker" where
  \<comment> \<open>the struct literal of \<open>UpdatePolicy\<close>; the fields it leaves out have their zero value\<close>
  "newClusterBreaker now cfg clusterID =
     \<lparr>ClusterID = clusterID, State = BreakerStateClosed, BreakerPolicy = None,
      FailureCount = 0, SuccessCount = 0, LastFailTime = zeroTime, NextRetry = zeroTime,
      Config = cfg, Stats = newBreakerStats now\<rparr>"

definition applyPolicy :: "time \<Rightarrow> BreakerConfig \<Rightarrow> Policy \<Rightarrow> clusterBreaker \<Rightarrow> clusterBreaker" where
  "applyPolicy now cfg policy b0 =
     (let b = b0\<lparr>BreakerPolicy := Some policy\<rparr> in
      if PolicyType policy = PolicyTypeCircuitBreak then
        (case CircuitBreak policy of
           None \<Rightarrow> b
         | Some cbp \<Rightarrow>
             (let b1 = b\<lparr>Config := \<lparr>FailureThreshold = FailureThreshold cfg,
                                     RecoveryTimeout = BreakDuration cbp,
                                     RecoveryIncrement = RecoveryStep cbp\<rparr>\<rparr>
              in if 0.8 \<le> Severity policy
                 then (let b2 = setState now BreakerStateOpen b1;
                           b3 = b2\<lparr>NextRetry := now + BreakDuration cbp\<rparr>
                       in b3\<lparr>Stats := recordBreakerOpen (Stats b3)\<rparr>)
                 else b1))
      else b)"

definition UpdatePolicy ::
  "time \<Rightarrow> clusterCircuitBreaker \<Rightarrow> string \<Rightarrow> Policy option
     \<Rightarrow> breaker_error option \<times> clusterCircuitBreaker" where
  "UpdatePolicy now ccb clusterID p =
     (case p of
        None \<Rightarrow> (Some PolicyCannotBeNil, ccb)
      | Some policy \<Rightarrow>
          (let breaker = (case clusters ccb clusterID of
                            None \<Rightarrow> newClusterBreaker now (config ccb) clusterID
                          | Some b \<Rightarrow> b)
           in (None, ccb\<lparr>clusters :=
                 (clusters ccb)(clusterID \<mapsto> applyPolicy now (config ccb) policy breaker)\<rparr>)))"

subsection \<open>Sequences of calls\<close>

text \<open>
  A history of the breaker is a list of calls applied one after the other to the value
  \<open>NewClusterCircuitBreaker\<close> returns. \<open>updatesPolicyOf c k\<close> says that the call \<open>k\<close>
  passes the cluster id \<open>c\<close> to \<open>UpdatePolicy\<close>.
\<close>

datatype breaker_call =
    CallAllow time string
  | CallRecordSuccess time string
  | CallRecordFailure time string
  | CallGetState string
  | CallUpdatePolicy time string "Policy option"

fun call :: "breaker_call \<Rightarrow> clusterCircuitBreaker \<Rightarrow> clusterCircuitBreaker" where
  "call (CallAllow now c) ccb = snd (Allow now ccb c)"
| "call (CallRecordSuccess now c) ccb = snd (RecordSuccess now ccb c)"
| "call (CallRecordFailure now c) ccb = snd (RecordFailure now ccb c)"
| "call (CallGetState c) ccb = ccb"
| "call (CallUpdatePolicy now c p) ccb = snd (UpdatePolicy now ccb c p)"

definition calls :: "breaker_call list \<Rightarrow> clusterCircuitBreaker \<Rightarrow> clusterCircuitBreaker" where
  "calls cs ccb = fold call cs ccb"

fun updatesPolicyOf :: "string \<Rightarrow> breaker_call \<Rightarrow> bool" where
  "updatesPolicyOf c (CallUpdatePolicy now c' p) = (c' = c)"
| "updatesPolicyOf c _ = False"

definition recordFailures ::
  "time list \<Rightarrow> clusterCircuitBreaker \<Rightarrow> string \<Rightarrow> clusterCircuitBreaker" where
  \<comment> \<open>one \<open>RecordFailure\<close> for the cluster at each of the instants, in order\<close>
  "recordFailures ts ccb c = fold (\<lambda>t s. snd (RecordFailure t s c)) ts ccb"


text \<open>A concrete breaker, used to run the theorems below on an explicit input.\<close>

definition exampleConfig :: BreakerConfig where
  "exampleConfig = \<lparr>FailureThreshold = 5, RecoveryTimeout = 10, RecoveryIncrement = 3 / 4\<rparr>"

definition examplePolicy :: Policy where
  "examplePolicy =
     \<lparr>PolicyID = ''p1'', PolicyClusterID = ''k'', PolicyType = PolicyTypeRateLimit,
      Severity = 3 / 10, RateLimit = Some \<lparr>LimitRate = 7 / 10, Duration = 60\<rparr>,
      CircuitBreak = None, CreateTime = 0, ExpireTime = 100, IsActive = True\<rparr>"

definition exampleBreaker :: clusterCircuitBreaker where
  "exampleBreaker =
     calls [CallUpdatePolicy 0 ''k'' (Some examplePolicy)] (NewClusterCircuitBreaker exampleConfig)"


section \<open>Vectors and clusters (packages utils, types)\<close>

type_synonym vector = "real list"

record Cluster =
  ID :: string
  Centroid :: vector
  Members :: "string list"
  ErrorCount :: int
  ClusterCreateTime :: time
  UpdateTime :: time
  ClusterSeverity :: real
  Description :: string

definition CosineSimilarity :: "vector \<Rightarrow> vector \<Rightarrow> real" where
  "CosineSimilarity a b =
     (if length a \<noteq> length b then 0
      else let dotProduct = (\<Sum>(x, y)\<leftarrow>zip a b. x * y);
               normA = (\<Sum>x\<leftarrow>a. x * x);
               normB = (\<Sum>y\<leftarrow>b. y * y)
           in if normA = 0 \<or> normB = 0 then 0
              else dotProduct / (sqrt normA * sqrt normB))"

text \<open>
  A Go map from cluster id to cluster is the list of its entries in the order in which
  \<open>range\<close> visits them (keys distinct). The language leaves that order open and lets it
  differ from one loop to the next, so each list with the same entries is a possible run.
\<close>

type_synonym cluster_map = "(string \<times> Cluster) list"


section \<open>Vector agent (package vector)\<close>

record EmbeddingService =
  PreprocessText :: "string \<Rightarrow> string"
  EmbedText :: "string \<Rightarrow> string + vector"

record vectorAgent =
  embeddingService :: "EmbeddingService option"
  agentClusters :: cluster_map
  similarityThreshold :: real

datatype agent_error =
    EmbeddingServiceNotAvailable
  | EmbedTextFailed string
  | FailedToGenerateVector agent_error

definition NewVectorAgent :: "EmbeddingService option \<Rightarrow> vectorAgent" where
  "NewVectorAgent es =
     \<lparr>embeddingService = es, agentClusters = [], similarityThreshold = 82 / 100\<rparr>"

definition GenerateVector :: "vectorAgent \<Rightarrow> string \<Rightarrow> agent_error + vector" where
  "GenerateVector va text =
     (case embeddingService va of
        None \<Rightarrow> Inl EmbeddingServiceNotAvailable
      | Some es \<Rightarrow>
          (case EmbedText es (PreprocessText es text) of
             Inl e \<Rightarrow> Inl (EmbedTextFailed e)
           | Inr v \<Rightarrow> Inr v))"

fun agentScan :: "real \<Rightarrow> vector \<Rightarrow> cluster_map \<Rightarrow> string \<times> real \<Rightarrow> string \<times> real" where
  \<comment> \<open>the loop of \<open>findMostSimilarCluster\<close>, carrying \<open>(bestClusterID, bestSimilarity)\<close>\<close>
  "agentScan thr v [] best = best"
| "agentScan thr v ((clusterID, cluster) # rest) (bestClusterID, bestSimilarity) =
     (if Centroid cluster = [] then agentScan thr v rest (bestClusterID, bestSimilarity)
      else let similarity = CosineSimilarity v (Centroid cluster)
           in if bestSimilarity < similarity \<and> thr \<le> similarity
              then agentScan thr v rest (clusterID, similarity)
              else agentScan thr v rest (bestClusterID, bestSimilarity))"

definition findMostSimilarCluster :: "vectorAgent \<Rightarrow> vector \<Rightarrow> string" where
  "findMostSimilarCluster va v =
     fst (agentScan (similarityThreshold va) v (agentClusters va) ([], 0))"

text \<open>
  \<open>IdentifyCluster\<close> reads and writes the cache behind the \<open>Cache\<close> interface. The
  entries that \<open>Get\<close> finds alive at the call are the map \<open>cache\<close>; the function returns
  the map with the entry it sets.
\<close>

definition IdentifyCluster ::
  "vectorAgent \<Rightarrow> (string \<rightharpoonup> string) \<Rightarrow> string
     \<Rightarrow> (agent_error + string) \<times> (string \<rightharpoonup> string)" where
  "IdentifyCluster va cache errorSignature =
     (if errorSignature = [] then (Inr [], cache)
      else case cache errorSignature of
        Some clusterID \<Rightarrow> (Inr clusterID, cache)
      | None \<Rightarrow>
          (case GenerateVector va errorSignature of
             Inl e \<Rightarrow> (Inl (FailedToGenerateVector e), cache)
           | Inr v \<Rightarrow>
               (let clusterID = findMostSimilarCluster va v
                in (Inr clusterID,
                    if clusterID \<noteq> [] then cache(errorSignature \<mapsto> clusterID) else cache))))"


section \<open>Circuit-breaker middleware (package middleware)\<close>

text \<open>
  One request through \<open>Middleware.CircuitBreaker\<close>. \<open>cb\<close> and \<open>va\<close> are the two interface
  fields, \<open>None\<close> when nil; the vector agent is its method \<open>IdentifyCluster\<close>.
  \<open>errorSignature\<close> is what \<open>ExtractErrorSignature\<close> reads from the request context,
  \<open>status\<close> the status code the rest of the chain writes, \<open>now\<close> the instant of the
  admission check and \<open>later\<close> the instant the outcome is recorded.
\<close>

datatype mw_result = Served int | ServiceUnavailable

definition admissionClusterID :: "(string \<Rightarrow> 'e + string) option \<Rightarrow> string \<Rightarrow> string" where
  "admissionClusterID va errorSignature =
     (case va of
        None \<Rightarrow> []
      | Some identify \<Rightarrow>
          (if errorSignature \<noteq> []
           then (case identify errorSignature of Inr clusterID \<Rightarrow> clusterID | Inl err \<Rightarrow> [])
           else []))"

definition CircuitBreaker ::
  "time \<Rightarrow> time \<Rightarrow> clusterCircuitBreaker option \<Rightarrow> (string \<Rightarrow> 'e + string) option
     \<Rightarrow> string \<Rightarrow> int \<Rightarrow> mw_result \<times> clusterCircuitBreaker option" where
  "CircuitBreaker now later cb va errorSignature status =
     (case cb of
        None \<Rightarrow> (Served status, None)
      | Some ccb \<Rightarrow>
          (let clusterID = admissionClusterID va errorSignature;
               (allowed, ccb1) = Allow now ccb clusterID
           in if \<not> allowed then (ServiceUnavailable, Some ccb1)
              else if 500 \<le> status
                   then (Served status, Some (snd (RecordFailure later ccb1 clusterID)))
                   else (Served status, Some (snd (RecordSuccess later ccb1 clusterID)))))"



definition openBreaker :: clusterCircuitBreaker where
  \<comment> \<open>\<open>exampleBreaker\<close> after five failures: the breaker of cluster \<open>k\<close> is OPEN until 15\<close>
  "openBreaker = recordFailures [1, 2, 3, 4, 5] exampleBreaker ''k''"

definition gatewayAgent :: "string \<Rightarrow> agent_error + string" where
  \<comment> \<open>the agent \<open>NewGateway\<close> builds, \<open>NewVectorAgent(nil, cache)\<close>, with an empty cache\<close>
  "gatewayAgent errorSignature = fst (IdentifyCluster (NewVectorAgent None) Map.empty errorSignature)"


section \<open>Token bucket (packages limiter and utils)\<close>

record TokenBucket =
  capacity :: int
  tokens :: int
  refillRate :: real
  lastRefill :: time


definition Seconds :: "duration \<Rightarrow> real" where
  "Seconds d = real_of_int d / 1000000000"

definition refill :: "time \<Rightarrow> TokenBucket \<Rightarrow> TokenBucket" where
  \<comment> \<open>\<open>TokenBucket.refill\<close> of package limiter\<close>
  "refill now tb =
     (let elapsed = Seconds (now - lastRefill tb) in
      if 0 < elapsed then
        (let tokensToAdd = int64_of_float (elapsed * refillRate tb);
             tb1 = tb\<lparr>tokens := tokens tb + tokensToAdd\<rparr>;
             tb2 = (if capacity tb1 < tokens tb1 then tb1\<lparr>tokens := capacity tb1\<rparr> else tb1)
         in tb2\<lparr>lastRefill := now\<rparr>)
      else tb)"

definition min_int64 :: "int \<Rightarrow> int \<Rightarrow> int" where
  \<comment> \<open>the helper \<open>min\<close> of package utils\<close>
  "min_int64 a b = (if a < b then a else b)"

definition refill_utils :: "time \<Rightarrow> TokenBucket \<Rightarrow> TokenBucket" where
  \<comment> \<open>\<open>tokenBucket.refill\<close> of package utils\<close>
  "refill_utils now tb =
     (let elapsed = Seconds (now - lastRefill tb) in
      if 0 < elapsed then
        (let tokensToAdd = int64_of_float (elapsed * refillRate tb)
         in tb\<lparr>tokens := min_int64 (capacity tb) (tokens tb + tokensToAdd), lastRefill := now\<rparr>)
      else tb)"






section \<open>Clustering engine (package clustering)\<close>

record ErrorEvent =
  EventID :: string
  TraceID :: string
  SpanID :: string
  RequestPath :: string
  Method :: string
  ServiceName :: string
  StatusCode :: int
  ErrorMessage :: string
  StackTrace :: "string list"
  Timestamp :: time
  EventClusterID :: string

record ClusteringConfig =
  SimilarityThreshold :: real
  ReclusteringInterval :: duration
  MinClusterSize :: int
  MaxClusters :: int

text \<open>
  The engine's collaborators: the embedding service is the record of its two methods, the
  vector database is the map \<open>vectors\<close> that \<open>vectorDB.AddVector\<close> writes (it always
  returns nil). \<open>GenerateClusterID\<close> draws on the clock and on random bytes; the id it
  returns is the argument \<open>newID\<close> of the operations that may create a cluster.
\<close>

record clusteringEngine =
  engineConfig :: ClusteringConfig
  engineEmbedding :: EmbeddingService
  vectors :: "string \<rightharpoonup> vector"
  engineClusters :: cluster_map
  memberToCluster :: "string \<rightharpoonup> string"

datatype engine_error =
    FailedToEmbedText string
  | MaximumNumberOfClustersReached int
  | ClusterNotFound string
  | FailedToCreateNewCluster engine_error
  | FailedToAddEventToCluster engine_error

fun engineScan :: "vector \<Rightarrow> cluster_map \<Rightarrow> string \<times> real \<Rightarrow> string \<times> real" where
  \<comment> \<open>the loop of \<open>FindMostSimilarCluster\<close>, carrying \<open>(bestClusterID, bestSimilarity)\<close>\<close>
  "engineScan v [] best = best"
| "engineScan v ((clusterID, cluster) # rest) (bestClusterID, bestSimilarity) =
     (if Centroid cluster = [] then engineScan v rest (bestClusterID, bestSimilarity)
      else let similarity = CosineSimilarity v (Centroid cluster)
           in if bestSimilarity < similarity
              then engineScan v rest (clusterID, similarity)
              else engineScan v rest (bestClusterID, bestSimilarity))"

definition FindMostSimilarCluster :: "cluster_map \<Rightarrow> vector \<Rightarrow> string \<times> real" where
  \<comment> \<open>the third result, the error, is always nil\<close>
  "FindMostSimilarCluster cs v = engineScan v cs ([], 0)"

definition putCluster :: "string \<Rightarrow> Cluster \<Rightarrow> cluster_map \<Rightarrow> cluster_map" where
  \<comment> \<open>\<open>m[k] = v\<close>: replace the entry of the key, or add one\<close>
  "putCluster k c m =
     (if k \<in> fst ` set m then map (\<lambda>(k', c'). if k' = k then (k', c) else (k', c')) m
      else m @ [(k, c)])"

definition Truncate :: "string \<Rightarrow> nat \<Rightarrow> string" where
  "Truncate s maxLen = (if length s \<le> maxLen then s else take maxLen s @ ''...'')"

definition buildErrorSignature :: "ErrorEvent \<Rightarrow> string" where
  "buildErrorSignature event =
     (let signature = ''service:'' @ ServiceName event @ '' method:'' @ Method event
                      @ '' path:'' @ RequestPath event @ '' error:'' @ ErrorMessage event
      in case StackTrace event of
           [] \<Rightarrow> signature
         | [f1] \<Rightarrow> signature @ '' stack:'' @ f1
         | f1 # f2 # _ \<Rightarrow> signature @ '' stack:'' @ f1 @ '' '' @ f2)"

definition generateClusterDescription :: "ErrorEvent \<Rightarrow> string" where
  "generateClusterDescription event =
     ''Service: '' @ ServiceName event @ '', Method: '' @ Method event
       @ '', Error: '' @ Truncate (ErrorMessage event) 100"

definition CreateNewCluster ::
  "time \<Rightarrow> string \<Rightarrow> clusteringEngine \<Rightarrow> ErrorEvent \<Rightarrow> vector
     \<Rightarrow> (engine_error + string) \<times> clusteringEngine" where
  "CreateNewCluster now newID ce event v =
     (if MaxClusters (engineConfig ce) \<le> int (length (engineClusters ce))
      then (Inl (MaximumNumberOfClustersReached (MaxClusters (engineConfig ce))), ce)
      else
        (let cluster = \<lparr>ID = newID, Centroid = v, Members = [EventID event], ErrorCount = 1,
                        ClusterCreateTime = now, UpdateTime = now, ClusterSeverity = 0,
                        Description = generateClusterDescription event\<rparr>
         in (Inr newID,
             ce\<lparr>engineClusters := putCluster newID cluster (engineClusters ce),
                memberToCluster := (memberToCluster ce)(EventID event \<mapsto> newID),
                vectors := (vectors ce)(EventID event \<mapsto> v)\<rparr>)))"

definition updateCentroid :: "Cluster \<Rightarrow> vector \<Rightarrow> Cluster" where
  "updateCentroid cluster newVector =
     (if length (Centroid cluster) \<noteq> length newVector then cluster
      else let n = real (length (Members cluster))
           in cluster\<lparr>Centroid :=
                map (\<lambda>(c, x). (c * (n - 1) + x) / n) (zip (Centroid cluster) newVector)\<rparr>)"

definition addEventToCluster ::
  "time \<Rightarrow> clusteringEngine \<Rightarrow> string \<Rightarrow> ErrorEvent \<Rightarrow> vector
     \<Rightarrow> engine_error option \<times> clusteringEngine" where
  "addEventToCluster now ce clusterID event v =
     (case map_of (engineClusters ce) clusterID of
        None \<Rightarrow> (Some (ClusterNotFound clusterID), ce)
      | Some cluster \<Rightarrow>
          (let c1 = cluster\<lparr>Members := Members cluster @ [EventID event],
                           ErrorCount := ErrorCount cluster + 1, UpdateTime := now\<rparr>;
               c2 = updateCentroid c1 v
           in (None,
               ce\<lparr>engineClusters := putCluster clusterID c2 (engineClusters ce),
                  memberToCluster := (memberToCluster ce)(EventID event \<mapsto> clusterID),
                  vectors := (vectors ce)(EventID event \<mapsto> v)\<rparr>)))"

text \<open>
  \<open>ProcessErrorEvent\<close> returns an error or nil and writes the cluster id into the event
  it is given; the model returns the error, the engine and the event.
\<close>

definition ProcessErrorEvent ::
  "time \<Rightarrow> string \<Rightarrow> clusteringEngine \<Rightarrow> ErrorEvent
     \<Rightarrow> engine_error option \<times> clusteringEngine \<times> ErrorEvent" where
  "ProcessErrorEvent now newID ce event =
     (let errorText = buildErrorSignature event in
      case EmbedText (engineEmbedding ce) errorText of
        Inl e \<Rightarrow> (Some (FailedToEmbedText e), ce, event)
      | Inr v \<Rightarrow>
          (let (clusterID, similarity) = FindMostSimilarCluster (engineClusters ce) v in
           if clusterID = [] \<or> similarity < SimilarityThreshold (engineConfig ce)
           then (case CreateNewCluster now newID ce event v of
                   (Inl e, ce') \<Rightarrow> (Some (FailedToCreateNewCluster e), ce', event)
                 | (Inr newClusterID, ce') \<Rightarrow>
                     (None, ce', event\<lparr>EventClusterID := newClusterID\<rparr>))
           else (case addEventToCluster now ce clusterID event v of
                   (Some e, ce') \<Rightarrow> (Some (FailedToAddEventToCluster e), ce', event)
                 | (None, ce') \<Rightarrow> (None, ce', event\<lparr>EventClusterID := clusterID\<rparr>))))"

definition unitCluster :: "string \<Rightarrow> Cluster" where
  \<comment> \<open>a cluster with one member and the centroid \<open>(1, 0)\<close>\<close>
  "unitCluster k =
     \<lparr>ID = k, Centroid = [1, 0], Members = [''e0''], ErrorCount = 1, ClusterCreateTime = 0,
      UpdateTime = 0, ClusterSeverity = 0, Description = ''Service: s, Method: GET, Error: x''\<rparr>"

definition fullEngine :: clusteringEngine where
  \<comment> \<open>an engine at its limit of one cluster, whose embedding maps every text to \<open>(3, 4)\<close>\<close>
  "fullEngine =
     \<lparr>engineConfig = \<lparr>SimilarityThreshold = 82 / 100, ReclusteringInterval = 3600000000000,
                       MinClusterSize = 2, MaxClusters = 1\<rparr>,
      engineEmbedding = \<lparr>PreprocessText = (\<lambda>s. s), EmbedText = (\<lambda>s. Inr [3, 4])\<rparr>,
      vectors = [''e0'' \<mapsto> [1, 0]],
      engineClusters = [(''c1'', unitCluster ''c1'')],
      memberToCluster = [''e0'' \<mapsto> ''c1'']\<rparr>"

definition exampleEvent :: ErrorEvent where
  "exampleEvent =
     \<lparr>EventID = ''e1'', TraceID = ''t1'', SpanID = ''s1'', RequestPath = ''/api/orders'',
      Method = ''GET'', ServiceName = ''api'', StatusCode = 500,
      ErrorMessage = ''connection refused'', StackTrace = [], Timestamp = 5,
      EventClusterID = []\<rparr>"



section \<open>Policy watcher (package config) and the gateway's callback\<close>

text \<open>
  The watcher's collaborators: the key-value store hands over keys and values, and
  \<open>json.Unmarshal\<close> is the argument \<open>unmarshal\<close>, \<open>None\<close> when it returns an error. A
  registered callback is known by a name. The callbacks run in goroutines of their own;
  what the watcher does is start them, so each operation returns the list of the calls
  it starts.
\<close>

datatype notification = OnPolicyUpdate string Policy | OnPolicyDelete string

record configWatcher =
  policies :: "string \<rightharpoonup> Policy"
  callbacks :: "string list"

datatype kv_event = EventTypePut string string | EventTypeDelete string string

definition TrimPrefix :: "string \<Rightarrow> string \<Rightarrow> string" where
  "TrimPrefix s p = (if take (length p) s = p then drop (length p) s else s)"

definition GetPolicy :: "time \<Rightarrow> configWatcher \<Rightarrow> string \<Rightarrow> Policy option" where
  \<comment> \<open>the second result, the error, is always nil\<close>
  "GetPolicy now cw clusterID =
     (case policies cw clusterID of
        None \<Rightarrow> None
      | Some policy \<Rightarrow> (if ExpireTime policy < now then None else Some policy))"

definition RegisterCallback :: "configWatcher \<Rightarrow> string \<Rightarrow> configWatcher" where
  "RegisterCallback cw callback = cw\<lparr>callbacks := callbacks cw @ [callback]\<rparr>"

definition notifyPolicyUpdate ::
  "configWatcher \<Rightarrow> string \<Rightarrow> Policy \<Rightarrow> (string \<times> notification) list" where
  "notifyPolicyUpdate cw clusterID policy =
     map (\<lambda>cb. (cb, OnPolicyUpdate clusterID policy)) (callbacks cw)"

definition notifyPolicyDelete :: "configWatcher \<Rightarrow> string \<Rightarrow> (string \<times> notification) list" where
  "notifyPolicyDelete cw clusterID = map (\<lambda>cb. (cb, OnPolicyDelete clusterID)) (callbacks cw)"

fun loadKvs ::
  "(string \<Rightarrow> Policy option) \<Rightarrow> (string \<times> string) list \<Rightarrow> configWatcher
     \<Rightarrow> configWatcher \<times> (string \<times> notification) list" where
  \<comment> \<open>the loop of \<open>loadExistingPolicies\<close> over \<open>resp.Kvs\<close>\<close>
  "loadKvs unmarshal [] cw = (cw, [])"
| "loadKvs unmarshal ((key, val) # kvs) cw =
     (let clusterID = TrimPrefix key ''/policies/'' in
      case unmarshal val of
        None \<Rightarrow> loadKvs unmarshal kvs cw
      | Some policy \<Rightarrow>
          (let cw1 = cw\<lparr>policies := (policies cw)(clusterID \<mapsto> policy)\<rparr>;
               started = notifyPolicyUpdate cw1 clusterID policy;
               (cw2, rest) = loadKvs unmarshal kvs cw1
           in (cw2, started @ rest)))"

definition loadExistingPolicies ::
  "(string \<Rightarrow> Policy option) \<Rightarrow> string + (string \<times> string) list \<Rightarrow> configWatcher
     \<Rightarrow> string option \<times> configWatcher \<times> (string \<times> notification) list" where
  \<comment> \<open>\<open>resp\<close> is what \<open>etcdClient.Get\<close> of the prefix \<open>/policies/\<close> returns\<close>
  "loadExistingPolicies unmarshal resp cw =
     (case resp of
        Inl err \<Rightarrow> (Some err, cw, [])
      | Inr kvs \<Rightarrow> (let (cw', started) = loadKvs unmarshal kvs cw in (None, cw', started)))"

definition handleConfigEvent ::
  "(string \<Rightarrow> Policy option) \<Rightarrow> kv_event \<Rightarrow> configWatcher
     \<Rightarrow> configWatcher \<times> (string \<times> notification) list" where
  "handleConfigEvent unmarshal event cw =
     (case event of
        EventTypePut key val \<Rightarrow>
          (let clusterID = TrimPrefix key ''/policies/'' in
           case unmarshal val of
             None \<Rightarrow> (cw, [])
           | Some policy \<Rightarrow>
               (let cw1 = cw\<lparr>policies := (policies cw)(clusterID \<mapsto> policy)\<rparr>
                in (cw1, notifyPolicyUpdate cw1 clusterID policy)))
      | EventTypeDelete key val \<Rightarrow>
          (let clusterID = TrimPrefix key ''/policies/'';
               cw1 = cw\<lparr>policies := (policies cw)(clusterID := None)\<rparr>
           in (cw1, notifyPolicyDelete cw1 clusterID)))"

text \<open>
  \<open>Gateway.OnPolicyUpdate\<close> passes the policy to the rate limiter and to the circuit
  breaker, logging their errors and returning nil. The rate limiter's \<open>UpdatePolicy\<close> is
  behind an interface; this is the callback's effect on the circuit breaker.
\<close>

definition GatewayOnPolicyUpdate ::
  "time \<Rightarrow> clusterCircuitBreaker \<Rightarrow> string \<Rightarrow> Policy \<Rightarrow> clusterCircuitBreaker" where
  "GatewayOnPolicyUpdate now ccb clusterID policy =
     snd (UpdatePolicy now ccb clusterID (Some policy))"

definition expiredPolicy :: Policy where
  \<comment> \<open>a circuit-break policy of severity 0.9 that expired at instant 100\<close>
  "expiredPolicy =
     \<lparr>PolicyID = ''p2'', PolicyClusterID = ''k'', PolicyType = PolicyTypeCircuitBreak,
      Severity = 9 / 10, RateLimit = None,
      CircuitBreak = Some \<lparr>BreakDuration = 30, RecoveryStep = 1 / 5\<rparr>,
      CreateTime = 0, ExpireTime = 100, IsActive = True\<rparr>"

definition exampleUnmarshal :: "string \<Rightarrow> Policy option" where
  "exampleUnmarshal val = (if val = ''{p2}'' then Some expiredPolicy else None)"

definition exampleWatcher :: configWatcher where
  "exampleWatcher = RegisterCallback \<lparr>policies = Map.empty, callbacks = []\<rparr> ''gateway''"


section \<open>Desensitizer (package utils)\<close>

subsection \<open>The regular expressions of the standard library, as far as the rules use them\<close>

text \<open>
  \<open>regexp.Regexp\<close> belongs to Go's standard library. Its documented behaviour is
  modelled for the forms the six rules are written in: a rule is a sequence of items,
  each a word boundary \<open>\b\<close> or a character class repeated between a least and a
  greatest number of times (a single character, \<open>?\<close>, \<open>+\<close>, \<open>{n}\<close>, \<open>{n,}\<close> and
  \<open>{n,m}\<close> are such repetitions). Matching is leftmost-first: the match begins as early
  as possible and is the one a backtracking search finds first, every repetition taking
  as many characters as it can and giving them back one at a time. \<open>\b\<close> is the ASCII
  word boundary, \<open>\w\<close> being letters, digits and the underscore. Strings are byte
  strings; all classes here are ASCII.
\<close>

definition isDigit :: "char \<Rightarrow> bool" where
  "isDigit c = (CHR ''0'' \<le> c \<and> c \<le> CHR ''9'')"

definition isUpper :: "char \<Rightarrow> bool" where
  "isUpper c = (CHR ''A'' \<le> c \<and> c \<le> CHR ''Z'')"

definition isLower :: "char \<Rightarrow> bool" where
  "isLower c = (CHR ''a'' \<le> c \<and> c \<le> CHR ''z'')"

definition isAlnum :: "char \<Rightarrow> bool" where
  \<comment> \<open>\<open>[A-Za-z0-9]\<close>\<close>
  "isAlnum c = (isUpper c \<or> isLower c \<or> isDigit c)"

definition isWordChar :: "char \<Rightarrow> bool" where
  \<comment> \<open>\<open>\w\<close>\<close>
  "isWordChar c = (isAlnum c \<or> c = CHR ''_'')"

definition isHex :: "char \<Rightarrow> bool" where
  \<comment> \<open>\<open>[0-9a-fA-F]\<close>\<close>
  "isHex c = (isDigit c \<or> (CHR ''a'' \<le> c \<and> c \<le> CHR ''f'') \<or> (CHR ''A'' \<le> c \<and> c \<le> CHR ''F''))"

definition isLocalPart :: "char \<Rightarrow> bool" where
  \<comment> \<open>\<open>[A-Za-z0-9._%+-]\<close>\<close>
  "isLocalPart c = (isAlnum c \<or> c \<in> set ''._%+-'')"

definition isDomainPart :: "char \<Rightarrow> bool" where
  \<comment> \<open>\<open>[A-Za-z0-9.-]\<close>\<close>
  "isDomainPart c = (isAlnum c \<or> c \<in> set ''.-'')"

definition isTopLevel :: "char \<Rightarrow> bool" where
  \<comment> \<open>\<open>[A-Z|a-z]\<close>: inside a class the bar is an ordinary character\<close>
  "isTopLevel c = (isUpper c \<or> c = CHR ''|'' \<or> isLower c)"

definition isSeparator :: "char \<Rightarrow> bool" where
  \<comment> \<open>\<open>[- ]\<close>\<close>
  "isSeparator c = (c \<in> set ''- '')"

datatype item = WordBoundary | Repeat "char \<Rightarrow> bool" nat "nat option"

abbreviation Exactly :: "(char \<Rightarrow> bool) \<Rightarrow> nat \<Rightarrow> item" where
  "Exactly cls n \<equiv> Repeat cls n (Some n)"

abbreviation Literal :: "char \<Rightarrow> item" where
  "Literal x \<equiv> Repeat (\<lambda>c. c = x) 1 (Some 1)"

definition atWordBoundary :: "char option \<Rightarrow> string \<Rightarrow> bool" where
  \<comment> \<open>\<open>prev\<close> is the character before the position, the string what follows it\<close>
  "atWordBoundary prev s =
     ((case prev of None \<Rightarrow> False | Some c \<Rightarrow> isWordChar c)
        \<noteq> (case s of [] \<Rightarrow> False | c # _ \<Rightarrow> isWordChar c))"

fun firstSome :: "(nat \<Rightarrow> nat option) \<Rightarrow> nat list \<Rightarrow> nat option" where
  "firstSome f [] = None"
| "firstSome f (k # ks) = (case f k of Some r \<Rightarrow> Some r | None \<Rightarrow> firstSome f ks)"

fun matchLen :: "item list \<Rightarrow> char option \<Rightarrow> string \<Rightarrow> nat option" where
  \<comment> \<open>the length of the match that begins at this position, if there is one\<close>
  "matchLen [] prev s = Some 0"
| "matchLen (WordBoundary # items) prev s =
     (if atWordBoundary prev s then matchLen items prev s else None)"
| "matchLen (Repeat cls lo hi # items) prev s =
     (let run = length (takeWhile cls s);
          most = (case hi of None \<Rightarrow> run | Some h \<Rightarrow> min h run)
      in firstSome
           (\<lambda>k. map_option (\<lambda>m. k + m)
                  (matchLen items (if k = 0 then prev else Some (s ! (k - 1))) (drop k s)))
           (rev [lo..<Suc most]))"

text \<open>
  \<open>ReplaceAllString\<close> walks through the source: where a match begins it writes the
  replacement and goes on after the match, elsewhere it copies one character. None of
  the six rules matches the empty string; for a rule that did, the model writes the
  replacement and copies the next character. The replacements of the rules hold no
  \<open>$\<close>, so they are written as they are.
\<close>

fun replaceFrom :: "item list \<Rightarrow> string \<Rightarrow> char option \<Rightarrow> string \<Rightarrow> string" where
  "replaceFrom re repl prev [] = (case matchLen re prev [] of Some _ \<Rightarrow> repl | None \<Rightarrow> [])"
| "replaceFrom re repl prev (c # cs) =
     (case matchLen re prev (c # cs) of
        None \<Rightarrow> c # replaceFrom re repl (Some c) cs
      | Some 0 \<Rightarrow> repl @ c # replaceFrom re repl (Some c) cs
      | Some (Suc k) \<Rightarrow> repl @ replaceFrom re repl (Some ((c # cs) ! k)) (drop k cs))"

definition ReplaceAllString :: "item list \<Rightarrow> string \<Rightarrow> string \<Rightarrow> string" where
  "ReplaceAllString re src repl = replaceFrom re repl None src"

subsection \<open>The desensitizer\<close>

record patternInfo =
  regex :: "item list"
  replacement :: string

text \<open>
  \<open>d.patterns\<close> is a Go map from rule name to rule; as for the cluster maps, it is the
  list of its entries in the order in which \<open>range\<close> visits them.
\<close>

type_synonym pattern_map = "(string \<times> patternInfo) list"

definition AddPattern :: "string \<Rightarrow> item list \<Rightarrow> string \<Rightarrow> pattern_map \<Rightarrow> pattern_map" where
  \<comment> \<open>the second argument is the rule as \<open>regexp.Compile\<close> returns it; all six compile\<close>
  "AddPattern name re repl m =
     (if name \<in> fst ` set m
      then map (\<lambda>(n, p). if n = name then (n, \<lparr>regex = re, replacement = repl\<rparr>) else (n, p)) m
      else m @ [(name, \<lparr>regex = re, replacement = repl\<rparr>)])"

definition phoneRegex :: "item list" where
  \<comment> \<open>\<^verbatim>\<open>\b\d{11}\b\<close>\<close>
  "phoneRegex = [WordBoundary, Exactly isDigit 11, WordBoundary]"

definition emailRegex :: "item list" where
  \<comment> \<open>\<^verbatim>\<open>\b[A-Za-z0-9._%+-]+@[A-Za-z0-9.-]+\.[A-Z|a-z]{2,}\b\<close>\<close>
  "emailRegex =
     [WordBoundary, Repeat isLocalPart 1 None, Literal (CHR ''@''), Repeat isDomainPart 1 None,
      Literal (CHR ''.''), Repeat isTopLevel 2 None, WordBoundary]"

definition tokenRegex :: "item list" where
  \<comment> \<open>\<^verbatim>\<open>\b[A-Za-z0-9]{20,}\b\<close>\<close>
  "tokenRegex = [WordBoundary, Repeat isAlnum 20 None, WordBoundary]"

definition ipRegex :: "item list" where
  \<comment> \<open>\<^verbatim>\<open>\b\d{1,3}\.\d{1,3}\.\d{1,3}\.\d{1,3}\b\<close>\<close>
  "ipRegex =
     [WordBoundary, Repeat isDigit 1 (Some 3), Literal (CHR ''.''), Repeat isDigit 1 (Some 3),
      Literal (CHR ''.''), Repeat isDigit 1 (Some 3), Literal (CHR ''.''),
      Repeat isDigit 1 (Some 3), WordBoundary]"

definition uuidRegex :: "item list" where
  \<comment> \<open>\<^verbatim>\<open>[0-9a-fA-F]{8}-[0-9a-fA-F]{4}-[0-9a-fA-F]{4}-[0-9a-fA-F]{4}-[0-9a-fA-F]{12}\<close>\<close>
  "uuidRegex =
     [Exactly isHex 8, Literal (CHR ''-''), Exactly isHex 4, Literal (CHR ''-''),
      Exactly isHex 4, Literal (CHR ''-''), Exactly isHex 4, Literal (CHR ''-''),
      Exactly isHex 12]"

definition creditcardRegex :: "item list" where
  \<comment> \<open>\<^verbatim>\<open>\b\d{4}[- ]?\d{4}[- ]?\d{4}[- ]?\d{4}\b\<close>\<close>
  "creditcardRegex =
     [WordBoundary, Exactly isDigit 4, Repeat isSeparator 0 (Some 1), Exactly isDigit 4,
      Repeat isSeparator 0 (Some 1), Exactly isDigit 4, Repeat isSeparator 0 (Some 1),
      Exactly isDigit 4, WordBoundary]"

definition NewDesensitizer :: pattern_map where
  \<comment> \<open>the entries in the order of the six \<open>AddPattern\<close> calls, one of the visiting orders\<close>
  "NewDesensitizer =
     (AddPattern ''creditcard'' creditcardRegex ''[CARD]''
       (AddPattern ''uuid'' uuidRegex ''[UUID]''
         (AddPattern ''ip'' ipRegex ''[IP]''
           (AddPattern ''token'' tokenRegex ''[TOKEN]''
             (AddPattern ''email'' emailRegex ''[EMAIL]''
               (AddPattern ''phone'' phoneRegex ''[PHONE]'' []))))))"

definition Desensitize :: "pattern_map \<Rightarrow> string \<Rightarrow> string" where
  "Desensitize patterns text =
     (if text = [] then text
      else fold (\<lambda>(name, pattern) result.
                   ReplaceAllString (regex pattern) result (replacement pattern))
             patterns text)"

definition markers :: "string list" where
  "markers = [''[PHONE]'', ''[EMAIL]'', ''[TOKEN]'', ''[IP]'', ''[UUID]'', ''[CARD]'']"

definition digitsThenUuid :: string where
  \<comment> \<open>eleven digits directly followed by a UUID\<close>
  "digitsThenUuid = ''12345678901abcdef12-abcd-abcd-abcd-abcdefabcdef''"


section \<open>Verification: circuit breaker\<close>

lemmas breaker_defs =
  Allow_def RecordSuccess_def RecordFailure_def GetState_def UpdatePolicy_def
  breakerAllow_def breakerRecordSuccess_def breakerRecordFailure_def applyPolicy_def
  newClusterBreaker_def newBreakerStats_def setState_def reset_def recordRequest_def
  recordSuccess_def recordFailure_def recordBreakerOpen_def recordStateChange_def
  recoveryThreshold_def int64_of_float_def NewClusterCircuitBreaker_def

lemmas example_defs =
  exampleConfig_def examplePolicy_def exampleBreaker_def PolicyTypeRateLimit_def
  PolicyTypeCircuitBreak_def

lemma call_keeps_absent:
  "clusters ccb c = None \<Longrightarrow> \<not> updatesPolicyOf c k \<Longrightarrow> clusters (call k ccb) c = None"
  by (cases k)
     (auto simp: Allow_def RecordSuccess_def RecordFailure_def UpdatePolicy_def Let_def
           split: option.splits prod.splits)

lemma calls_keep_absent:
  "clusters ccb c = None \<Longrightarrow> \<forall>k\<in>set cs. \<not> updatesPolicyOf c k
   \<Longrightarrow> clusters (calls cs ccb) c = None"
  unfolding calls_def
  by (induction cs arbitrary: ccb) (auto simp: call_keeps_absent)








text \<open>
  Claim C10. A cluster id that no call of the history passes to \<open>UpdatePolicy\<close> has no
  entry in the breaker map; for it \<open>Allow\<close> returns true, \<open>GetState\<close> returns CLOSED, and
  \<open>RecordFailure\<close> and \<open>RecordSuccess\<close> return nil, each leaving the whole breaker state
  as it was. The history may hold any number of failures recorded for that cluster.
\<close>

theorem unknown_cluster_never_trips:
  assumes "\<forall>k\<in>set cs. \<not> updatesPolicyOf c k"
  shows "clusters (calls cs (NewClusterCircuitBreaker cfg)) c = None
       \<and> Allow now (calls cs (NewClusterCircuitBreaker cfg)) c
           = (True, calls cs (NewClusterCircuitBreaker cfg))
       \<and> GetState (calls cs (NewClusterCircuitBreaker cfg)) c = BreakerStateClosed
       \<and> RecordFailure now (calls cs (NewClusterCircuitBreaker cfg)) c
           = (None, calls cs (NewClusterCircuitBreaker cfg))
       \<and> RecordSuccess now (calls cs (NewClusterCircuitBreaker cfg)) c
           = (None, calls cs (NewClusterCircuitBreaker cfg))"
proof -
  have "clusters (NewClusterCircuitBreaker cfg) c = None"
    by (simp add: NewClusterCircuitBreaker_def)
  then have "clusters (calls cs (NewClusterCircuitBreaker cfg)) c = None"
    using assms by (rule calls_keep_absent)
  then show ?thesis
    by (simp add: Allow_def GetState_def RecordFailure_def RecordSuccess_def)
qed

theorem unknown_cluster_never_trips_witness:
  "GetState (calls [CallUpdatePolicy 0 ''k'' (Some examplePolicy),
                    CallRecordFailure 1 ''u'', CallRecordFailure 2 ''u'',
                    CallRecordFailure 3 ''u'', CallRecordFailure 4 ''u'',
                    CallRecordFailure 5 ''u'', CallRecordFailure 6 ''u'']
              (NewClusterCircuitBreaker exampleConfig)) ''u'' = BreakerStateClosed
   \<and> fst (Allow 7 (calls [CallUpdatePolicy 0 ''k'' (Some examplePolicy),
                    CallRecordFailure 1 ''u'', CallRecordFailure 2 ''u'',
                    CallRecordFailure 3 ''u'', CallRecordFailure 4 ''u'',
                    CallRecordFailure 5 ''u'', CallRecordFailure 6 ''u'']
              (NewClusterCircuitBreaker exampleConfig)) ''u'')"
  using unknown_cluster_never_trips[of
          "[CallUpdatePolicy 0 ''k'' (Some examplePolicy),
            CallRecordFailure 1 ''u'', CallRecordFailure 2 ''u'',
            CallRecordFailure 3 ''u'', CallRecordFailure 4 ''u'',
            CallRecordFailure 5 ''u'', CallRecordFailure 6 ''u'']" "''u''" exampleConfig 7]
  by simp





section \<open>Verification: circuit-breaker middleware\<close>

text \<open>
  Claim C6 (fail-open). When the vector agent's \<open>IdentifyCluster\<close> returns an error for
  the request's signature, the cluster id stays empty, \<open>Allow\<close> is asked about the empty
  id and returns true, and the middleware serves the request with the status of the rest
  of the chain, leaving the breaker as it was; no 503 comes from this path.
\<close>

theorem fail_open_on_agent_error:
  "va = Some identify \<and> identify errorSignature = Inl err
   \<longrightarrow> admissionClusterID va errorSignature = []
     \<and> (\<forall>ccb. Allow now ccb (admissionClusterID va errorSignature) = (True, ccb))
     \<and> CircuitBreaker now later cb va errorSignature status = (Served status, cb)"
  by (cases cb)
     (simp_all add: CircuitBreaker_def admissionClusterID_def Allow_def RecordFailure_def
        RecordSuccess_def)

theorem fail_open_on_agent_error_witness:
  "gatewayAgent ''connection refused'' = Inl (FailedToGenerateVector EmbeddingServiceNotAvailable)
   \<and> CircuitBreaker 6 7 (Some openBreaker) (Some gatewayAgent) ''connection refused'' 500
       = (Served 500, Some openBreaker)"
proof -
  have e: "gatewayAgent ''connection refused''
             = Inl (FailedToGenerateVector EmbeddingServiceNotAvailable)"
    by (simp add: gatewayAgent_def IdentifyCluster_def GenerateVector_def NewVectorAgent_def)
  with fail_open_on_agent_error[of "Some gatewayAgent" gatewayAgent "''connection refused''"
         "FailedToGenerateVector EmbeddingServiceNotAvailable" 6 7 "Some openBreaker" 500]
  show ?thesis by simp
qed


section \<open>Verification: token bucket\<close>


lemma refill_utils_eq: "refill_utils now tb = refill now tb"
  by (simp add: refill_def refill_utils_def min_int64_def Let_def)




lemma Seconds_add: "Seconds (a + b) = Seconds a + Seconds b"
  by (simp add: Seconds_def add_divide_distrib)








section \<open>Verification: cluster lookup\<close>







lemma sqrt_25: "sqrt 25 = 5"
  by (rule real_sqrt_unique) simp_all





section \<open>Verification: clustering engine at its cluster limit\<close>

text \<open>
  Claim C2, as the code has it. When the event's vector has no cluster within the
  similarity threshold (the lookup returns the empty id or a similarity below the
  threshold) and the number of clusters has reached \<open>max_clusters\<close>, \<open>ProcessErrorEvent\<close>
  returns the error of \<open>CreateNewCluster\<close>, and neither the engine nor the event changes:
  the event is not merged into any cluster.
\<close>

theorem process_event_at_cluster_limit:
  assumes "EmbedText (engineEmbedding ce) (buildErrorSignature event) = Inr v"
    and "FindMostSimilarCluster (engineClusters ce) v = (cid, s)"
    and "cid = [] \<or> s < SimilarityThreshold (engineConfig ce)"
    and "MaxClusters (engineConfig ce) \<le> int (length (engineClusters ce))"
  shows "ProcessErrorEvent now newID ce event
           = (Some (FailedToCreateNewCluster
                      (MaximumNumberOfClustersReached (MaxClusters (engineConfig ce)))),
              ce, event)"
  using assms by (auto simp: ProcessErrorEvent_def CreateNewCluster_def Let_def)

theorem process_event_at_cluster_limit_witness:
  "ProcessErrorEvent 5 ''c2'' fullEngine exampleEvent
     = (Some (FailedToCreateNewCluster (MaximumNumberOfClustersReached 1)),
        fullEngine, exampleEvent)"
proof -
  have f: "FindMostSimilarCluster (engineClusters fullEngine) [3, 4] = (''c1'', 3 / 5)"
    by (simp add: FindMostSimilarCluster_def fullEngine_def unitCluster_def
          CosineSimilarity_def sqrt_25)
  have c: "engineConfig fullEngine
             = \<lparr>SimilarityThreshold = 82 / 100, ReclusteringInterval = 3600000000000,
                MinClusterSize = 2, MaxClusters = 1\<rparr>"
    "EmbedText (engineEmbedding fullEngine) (buildErrorSignature exampleEvent) = Inr [3, 4]"
    "length (engineClusters fullEngine) = 1"
    by (simp_all add: fullEngine_def)
  from process_event_at_cluster_limit[of fullEngine exampleEvent "[3, 4]" "''c1''" "3 / 5"
         5 "''c2''"] f c
  show ?thesis by simp
qed

text \<open>
  The claim as written fails: the engine holds one cluster, its limit, and the event's
  vector \<open>(3, 4)\<close> has similarity 0.6 with that cluster, below the threshold 0.82.
  \<open>ProcessErrorEvent\<close> returns an error and the cluster keeps its single member.
\<close>

theorem process_event_at_cluster_limit_counterexample:
  "FindMostSimilarCluster (engineClusters fullEngine) [3, 4] = (''c1'', 3 / 5)
   \<and> fst (ProcessErrorEvent 5 ''c2'' fullEngine exampleEvent)
       = Some (FailedToCreateNewCluster (MaximumNumberOfClustersReached 1))
   \<and> map_of (engineClusters (fst (snd (ProcessErrorEvent 5 ''c2'' fullEngine exampleEvent))))
       ''c1'' = Some (unitCluster ''c1'')
   \<and> Members (unitCluster ''c1'') = [''e0'']"
  by (simp add: ProcessErrorEvent_def CreateNewCluster_def FindMostSimilarCluster_def
        fullEngine_def unitCluster_def CosineSimilarity_def sqrt_25)


section \<open>Verification: policy watcher\<close>

lemma loadKvs_delivers:
  "(key, val) \<in> set kvs \<Longrightarrow> unmarshal val = Some policy \<Longrightarrow> cb \<in> set (callbacks cw)
   \<Longrightarrow> (cb, OnPolicyUpdate (TrimPrefix key ''/policies/'') policy)
         \<in> set (snd (loadKvs unmarshal kvs cw))"
proof (induction kvs arbitrary: cw)
  case Nil
  then show ?case by simp
next
  case (Cons a kvs)
  obtain k w where a: "a = (k, w)" by (cases a)
  show ?case
  proof (cases "unmarshal w")
    case None
    then have "(key, val) \<in> set kvs" using Cons.prems a by auto
    from Cons.IH[OF this Cons.prems(2,3)] None a show ?thesis by simp
  next
    case (Some p)
    let ?cw1 = "cw\<lparr>policies := (policies cw)(TrimPrefix k ''/policies/'' \<mapsto> p)\<rparr>"
    have s: "snd (loadKvs unmarshal (a # kvs) cw)
               = notifyPolicyUpdate ?cw1 (TrimPrefix k ''/policies/'') p
                 @ snd (loadKvs unmarshal kvs ?cw1)"
      using Some a by (simp add: Let_def split: prod.splits)
    show ?thesis
    proof (cases "(key, val) = (k, w)")
      case True
      then have "(cb, OnPolicyUpdate (TrimPrefix key ''/policies/'') policy)
                   \<in> set (notifyPolicyUpdate ?cw1 (TrimPrefix k ''/policies/'') p)"
        using Some Cons.prems(2,3) by (auto simp: notifyPolicyUpdate_def)
      then show ?thesis using s by simp
    next
      case False
      then have "(key, val) \<in> set kvs" using Cons.prems a by auto
      moreover have "cb \<in> set (callbacks ?cw1)" using Cons.prems(3) by simp
      ultimately have "(cb, OnPolicyUpdate (TrimPrefix key ''/policies/'') policy)
                   \<in> set (snd (loadKvs unmarshal kvs ?cw1))"
        using Cons.IH Cons.prems(2) by blast
      then show ?thesis using s by simp
    qed
  qed
qed

text \<open>
  Claim C8, as the code has it. \<open>GetPolicy\<close> returns no policy for a record whose expire
  time is before the current instant. The two delivery paths never look at the expire
  time: a watch put event whose value decodes stores the policy and starts
  \<open>OnPolicyUpdate\<close> with it on every registered callback, and so does the initial load for
  every key whose value decodes.
\<close>

theorem watcher_expiry:
  "(policies cw c = Some p \<and> ExpireTime p < now \<longrightarrow> GetPolicy now cw c = None)
   \<and> (unmarshal val = Some q \<longrightarrow>
        handleConfigEvent unmarshal (EventTypePut key val) cw
          = (cw\<lparr>policies := (policies cw)(TrimPrefix key ''/policies/'' \<mapsto> q)\<rparr>,
             map (\<lambda>cb. (cb, OnPolicyUpdate (TrimPrefix key ''/policies/'') q)) (callbacks cw)))
   \<and> ((key, val) \<in> set kvs \<and> unmarshal val = Some q \<and> cb \<in> set (callbacks cw) \<longrightarrow>
        (cb, OnPolicyUpdate (TrimPrefix key ''/policies/'') q)
          \<in> set (snd (snd (loadExistingPolicies unmarshal (Inr kvs) cw))))"
proof (intro conjI impI)
  assume "policies cw c = Some p \<and> ExpireTime p < now"
  then show "GetPolicy now cw c = None" by (simp add: GetPolicy_def)
next
  assume "unmarshal val = Some q"
  then show "handleConfigEvent unmarshal (EventTypePut key val) cw
          = (cw\<lparr>policies := (policies cw)(TrimPrefix key ''/policies/'' \<mapsto> q)\<rparr>,
             map (\<lambda>cb. (cb, OnPolicyUpdate (TrimPrefix key ''/policies/'') q)) (callbacks cw))"
    by (simp add: handleConfigEvent_def notifyPolicyUpdate_def Let_def)
next
  assume "(key, val) \<in> set kvs \<and> unmarshal val = Some q \<and> cb \<in> set (callbacks cw)"
  then have "(cb, OnPolicyUpdate (TrimPrefix key ''/policies/'') q)
               \<in> set (snd (loadKvs unmarshal kvs cw))"
    using loadKvs_delivers by blast
  then show "(cb, OnPolicyUpdate (TrimPrefix key ''/policies/'') q)
          \<in> set (snd (snd (loadExistingPolicies unmarshal (Inr kvs) cw)))"
    by (simp add: loadExistingPolicies_def split: prod.splits)
qed

theorem watcher_expiry_witness:
  "GetPolicy 200 (fst (handleConfigEvent exampleUnmarshal
                          (EventTypePut ''/policies/k'' ''{p2}'') exampleWatcher)) ''k'' = None
   \<and> handleConfigEvent exampleUnmarshal (EventTypePut ''/policies/k'' ''{p2}'') exampleWatcher
       = (exampleWatcher\<lparr>policies := [''k'' \<mapsto> expiredPolicy]\<rparr>,
          [(''gateway'', OnPolicyUpdate ''k'' expiredPolicy)])
   \<and> (''gateway'', OnPolicyUpdate ''k'' expiredPolicy)
       \<in> set (snd (snd (loadExistingPolicies exampleUnmarshal
                           (Inr [(''/policies/k'', ''{p2}'')]) exampleWatcher)))"
proof -
  let ?cw = "fst (handleConfigEvent exampleUnmarshal
                    (EventTypePut ''/policies/k'' ''{p2}'') exampleWatcher)"
  have h: "policies ?cw ''k'' = Some expiredPolicy" "ExpireTime expiredPolicy < 200"
    "exampleUnmarshal ''{p2}'' = Some expiredPolicy"
    "TrimPrefix ''/policies/k'' ''/policies/'' = ''k''"
    "callbacks exampleWatcher = [''gateway'']" "policies exampleWatcher = Map.empty"
    by (simp_all add: handleConfigEvent_def exampleUnmarshal_def exampleWatcher_def
          RegisterCallback_def TrimPrefix_def expiredPolicy_def Let_def)
  note g = watcher_expiry[where cw = ?cw and c = "''k''" and p = expiredPolicy
             and now = 200, THEN conjunct1]
  note d = watcher_expiry[where cw = exampleWatcher and unmarshal = exampleUnmarshal
             and val = "''{p2}''" and q = expiredPolicy and key = "''/policies/k''"
             and kvs = "[(''/policies/k'', ''{p2}'')]" and cb = "''gateway''",
             THEN conjunct2]
  from g d h show ?thesis by simp
qed

text \<open>
  The claim as written fails: a policy that expired at instant 100 arrives in a watch put
  event, or is found by the initial load, and is handed to the registered callback. Run at
  instant 200, the gateway's callback applies it: the breaker of the cluster opens and
  the next request of the cluster is refused.
\<close>

theorem watcher_expiry_counterexample:
  "ExpireTime expiredPolicy < 200
   \<and> snd (handleConfigEvent exampleUnmarshal (EventTypePut ''/policies/k'' ''{p2}'')
            exampleWatcher)
       = [(''gateway'', OnPolicyUpdate ''k'' expiredPolicy)]
   \<and> snd (snd (loadExistingPolicies exampleUnmarshal (Inr [(''/policies/k'', ''{p2}'')])
                 exampleWatcher))
       = [(''gateway'', OnPolicyUpdate ''k'' expiredPolicy)]
   \<and> GetState (GatewayOnPolicyUpdate 200 (NewClusterCircuitBreaker exampleConfig) ''k''
                 expiredPolicy) ''k'' = BreakerStateOpen
   \<and> \<not> fst (Allow 201 (GatewayOnPolicyUpdate 200 (NewClusterCircuitBreaker exampleConfig)
                         ''k'' expiredPolicy) ''k'')"
  by (simp add: handleConfigEvent_def loadExistingPolicies_def exampleUnmarshal_def
        exampleWatcher_def RegisterCallback_def notifyPolicyUpdate_def TrimPrefix_def
        GatewayOnPolicyUpdate_def breaker_defs example_defs expiredPolicy_def Let_def)


section \<open>Verification: desensitizer\<close>

lemma fold_fixed_point: "\<forall>x\<in>set xs. f x m = m \<Longrightarrow> fold f xs m = m"
  by (induction xs) simp_all

lemma rules_keep_markers:
  "\<forall>m\<in>set markers. \<forall>(n, p)\<in>set NewDesensitizer.
      ReplaceAllString (regex p) m (replacement p) = m"
  by code_simp

text \<open>
  Claim C9, as the code has it. Each of the markers \<open>[PHONE]\<close>, \<open>[EMAIL]\<close>, \<open>[TOKEN]\<close>,
  \<open>[IP]\<close>, \<open>[UUID]\<close> and \<open>[CARD]\<close> is a fixed point of every replacement rule, and so
  \<open>Desensitize\<close> returns a marker as it is, in whatever order the rules are visited (the
  list \<open>order\<close> may hold the six rules in any order).
\<close>

theorem markers_are_fixed_points:
  "m \<in> set markers \<longrightarrow>
     (\<forall>(n, p)\<in>set NewDesensitizer. ReplaceAllString (regex p) m (replacement p) = m)
     \<and> (\<forall>order. set order \<subseteq> set NewDesensitizer \<longrightarrow> Desensitize order m = m)"
proof (intro impI conjI allI)
  assume m: "m \<in> set markers"
  then show r: "\<forall>(n, p)\<in>set NewDesensitizer. ReplaceAllString (regex p) m (replacement p) = m"
    using rules_keep_markers by blast
  fix order :: pattern_map
  assume "set order \<subseteq> set NewDesensitizer"
  then have "\<forall>x\<in>set order.
               (\<lambda>(name, pattern) result.
                   ReplaceAllString (regex pattern) result (replacement pattern)) x m = m"
    using r by auto
  then show "Desensitize order m = m"
    unfolding Desensitize_def by (simp add: fold_fixed_point)
qed

theorem markers_are_fixed_points_witness:
  "ReplaceAllString tokenRegex ''[PHONE]'' ''[TOKEN]'' = ''[PHONE]''
   \<and> Desensitize (rev NewDesensitizer) ''[PHONE]'' = ''[PHONE]''"
proof -
  have m: "''[PHONE]'' \<in> set markers"
    by (simp add: markers_def)
  have t: "(''token'', \<lparr>regex = tokenRegex, replacement = ''[TOKEN]''\<rparr>) \<in> set NewDesensitizer"
    by (simp add: NewDesensitizer_def AddPattern_def)
  have o: "set (rev NewDesensitizer) \<subseteq> set NewDesensitizer"
    by simp
  from markers_are_fixed_points[of "''[PHONE]''"] m
  have a: "\<forall>(n, p)\<in>set NewDesensitizer.
             ReplaceAllString (regex p) ''[PHONE]'' (replacement p) = ''[PHONE]''"
    and b: "\<forall>order. set order \<subseteq> set NewDesensitizer
             \<longrightarrow> Desensitize order ''[PHONE]'' = ''[PHONE]''"
    by blast+
  from a t have "ReplaceAllString tokenRegex ''[PHONE]'' ''[TOKEN]'' = ''[PHONE]''"
    by fastforce
  moreover from b o have "Desensitize (rev NewDesensitizer) ''[PHONE]'' = ''[PHONE]''"
    by blast
  ultimately show ?thesis by simp
qed

text \<open>
  The claim as written fails: the input is eleven digits directly followed by a UUID, and
  the rules are visited in the order in which they were added. In the first pass the
  phone rule finds no word boundary after the digits, and the UUID rule, visited later,
  puts \<open>[UUID]\<close> there; the second pass then finds the phone number. Visited in the
  reverse order the first pass already replaces both.
\<close>

theorem desensitize_idempotence_counterexample:
  "Desensitize NewDesensitizer digitsThenUuid = ''12345678901[UUID]''
   \<and> Desensitize NewDesensitizer (Desensitize NewDesensitizer digitsThenUuid) = ''[PHONE][UUID]''
   \<and> Desensitize NewDesensitizer (Desensitize NewDesensitizer digitsThenUuid)
       \<noteq> Desensitize NewDesensitizer digitsThenUuid
   \<and> Desensitize (rev NewDesensitizer) digitsThenUuid = ''[PHONE][UUID]''"
  by code_simp

end
